theory Spec2Isabelle
  imports Complex_Main
begin

section \<open>The 4x4 matrix type of src/core/core\_matrix4.js\<close>

text \<open>
  A \<open>pc.Matrix4\<close> object has one field, \<open>data\<close>, a \<open>Float32Array(16)\<close> that is
  allocated by the constructor and never reassigned. An object is therefore identified
  with the reference of its array. The store maps references to array contents, so that
  two parameters of a function may name the same matrix, as \<open>Matrix4.prototype.mul\<close>
  does when it calls \<open>Matrix4.mul(this, rhs, this)\<close>.

  Numbers are modelled as reals: the rounding of \<open>Float32Array\<close> stores and of double
  arithmetic, infinities and NaN are outside this model.

  Each function is modelled as one call of its body in a host where the module has been
  loaded; what the module calls while it loads (the construction of the shared identity
  and zero matrices and of the scratch vectors of \<open>lookAt\<close> and \<open>getScale\<close>) is not
  modelled, except that what the scratch vectors of \<open>lookAt\<close> hold afterwards is a
  parameter of \<open>lookAt\<close>. Identifiers that a body uses without declaring them are
  looked up in the global scope, which is a parameter of the model.
\<close>

type_synonym ref = nat

datatype error = ReferenceError string | TypeError string

datatype jsval = JUndefined | JBool bool

record state =
  arrays :: "ref \<Rightarrow> real list"
  next_ref :: ref
  console :: "string list"

text \<open>
  The part of the host that the bodies reach without declaring it. A global identifier is
  unbound (\<open>None\<close>), or bound to a typed array (\<open>global_array\<close>, for the names the
  bodies index) or to a number (\<open>global_number\<close>, for the names they pass to \<open>Math\<close>
  functions). \<open>pc_Matrix\<close> is the constructor \<open>pc.Matrix\<close>, if the host has one: it
  allocates an object and returns the reference of its \<open>data\<close> array.
\<close>

record scope =
  global_array :: "string \<Rightarrow> ref option"
  global_number :: "string \<Rightarrow> real option"
  pc_Matrix :: "(state \<Rightarrow> ref \<times> state) option"

definition no_globals :: scope where
  "no_globals = \<lparr>global_array = (\<lambda>_. None), global_number = (\<lambda>_. None), pc_Matrix = None\<rparr>"

definition empty_state :: state where
  "empty_state = \<lparr>arrays = (\<lambda>_. []), next_ref = 0, console = []\<rparr>"

definition rd :: "state \<Rightarrow> ref \<Rightarrow> nat \<Rightarrow> real" where
  \<comment> \<open>\<open>a[i]\<close>, for the constant indices below the array length that the source uses\<close>
  "rd s a i = arrays s a ! i"

definition wr :: "ref \<Rightarrow> nat \<Rightarrow> real \<Rightarrow> state \<Rightarrow> state" where
  \<comment> \<open>\<open>a[i] = v\<close>; a typed array ignores a store outside its length, as \<open>list_update\<close> does\<close>
  "wr a i v s = s\<lparr>arrays := (arrays s)(a := (arrays s a)[i := v])\<rparr>"

definition alloc :: "real list \<Rightarrow> state \<Rightarrow> ref \<times> state" where
  "alloc d s =
     (next_ref s, s\<lparr>arrays := (arrays s)(next_ref s := d), next_ref := Suc (next_ref s)\<rparr>)"

definition typed_array_set :: "ref \<Rightarrow> real list \<Rightarrow> state \<Rightarrow> state" where
  \<comment> \<open>\<open>a.set(src)\<close> for a source no longer than the target: the elements of \<open>src\<close>
      replace the first \<open>length src\<close> elements of \<open>a\<close>\<close>
  "typed_array_set a src s =
     s\<lparr>arrays := (arrays s)(a := src @ drop (length src) (arrays s a))\<rparr>"

definition wf :: "state \<Rightarrow> ref \<Rightarrow> bool" where
  \<comment> \<open>\<open>r\<close> is a matrix that the constructor has allocated\<close>
  "wf s r = (r < next_ref s \<and> length (arrays s r) = 16)"

subsection \<open>setIdentity and the constructor\<close>

definition setIdentity :: "ref \<Rightarrow> state \<Rightarrow> ref \<times> state" where
  "setIdentity this s =
     (let m = this;
          s = wr m 0 1 s;
          s = wr m 1 0 s;
          s = wr m 2 0 s;
          s = wr m 3 0 s;
          s = wr m 4 0 s;
          s = wr m 5 1 s;
          s = wr m 6 0 s;
          s = wr m 7 0 s;
          s = wr m 8 0 s;
          s = wr m 9 0 s;
          s = wr m 10 1 s;
          s = wr m 11 0 s;
          s = wr m 12 0 s;
          s = wr m 13 0 s;
          s = wr m 14 0 s;
          s = wr m 15 1 s
      in (this, s))"

definition Matrix4 :: "real list \<Rightarrow> state \<Rightarrow> ref \<times> state" where
  \<comment> \<open>\<open>new pc.Matrix4(arguments)\<close>: \<open>new Float32Array(16)\<close> is zero-filled\<close>
  "Matrix4 arguments s =
     (let (this, s) = alloc (replicate 16 0) s
      in if length arguments = 16 then (this, typed_array_set this arguments s)
         else setIdentity this s)"

definition data_of :: "ref \<times> state \<Rightarrow> real list" where
  \<comment> \<open>the storage of the matrix that a call returned\<close>
  "data_of p = arrays (snd p) (fst p)"

definition identity16 :: "real list" where
  "identity16 = [1, 0, 0, 0, 0, 1, 0, 0, 0, 0, 1, 0, 0, 0, 0, 1]"

subsection \<open>copy, clone, equals\<close>

definition copy :: "ref \<Rightarrow> ref \<Rightarrow> state \<Rightarrow> ref \<times> state" where
  "copy this rhs s =
     (let src = rhs;
          dst = this;
          s = wr dst 0 (rd s src 0) s;
          s = wr dst 1 (rd s src 1) s;
          s = wr dst 2 (rd s src 2) s;
          s = wr dst 3 (rd s src 3) s;
          s = wr dst 4 (rd s src 4) s;
          s = wr dst 5 (rd s src 5) s;
          s = wr dst 6 (rd s src 6) s;
          s = wr dst 7 (rd s src 7) s;
          s = wr dst 8 (rd s src 8) s;
          s = wr dst 9 (rd s src 9) s;
          s = wr dst 10 (rd s src 10) s;
          s = wr dst 11 (rd s src 11) s;
          s = wr dst 12 (rd s src 12) s;
          s = wr dst 13 (rd s src 13) s;
          s = wr dst 14 (rd s src 14) s;
          s = wr dst 15 (rd s src 15) s
      in (this, s))"

definition clone :: "ref \<Rightarrow> state \<Rightarrow> ref \<times> state" where
  \<comment> \<open>\<open>return new pc.Matrix4().copy(this)\<close>\<close>
  "clone this s = (let (n, s) = Matrix4 [] s in copy n this s)"

definition equals_unreachable :: "real list \<Rightarrow> real list \<Rightarrow> bool" where
  \<comment> \<open>the parenthesised expression on the lines after \<open>return\<close> in \<open>equals\<close>\<close>
  "equals_unreachable l r =
     ((l ! 0 = r ! 0) \<and> (l ! 1 = r ! 1) \<and> (l ! 2 = r ! 2) \<and> (l ! 3 = r ! 3) \<and>
      (l ! 4 = r ! 4) \<and> (l ! 5 = r ! 5) \<and> (l ! 6 = r ! 6) \<and> (l ! 7 = r ! 7) \<and>
      (l ! 8 = r ! 8) \<and> (l ! 9 = r ! 9) \<and> (l ! 10 = r ! 10) \<and> (l ! 11 = r ! 11) \<and>
      (l ! 12 = r ! 12) \<and> (l ! 13 = r ! 13) \<and> (l ! 14 = r ! 14) \<and> (l ! 15 = r ! 15))"

definition equals :: "ref \<Rightarrow> ref \<Rightarrow> state \<Rightarrow> jsval" where
  \<comment> \<open>The source has a line break directly after \<open>return\<close>. JavaScript ends the
      statement there (automatic semicolon insertion), so the function returns
      \<open>undefined\<close> and the comparison on the following lines is never evaluated.\<close>
  "equals this rhs s =
     (let l = arrays s this;
          r = arrays s rhs
      in JUndefined)"

subsection \<open>mul and mulVec3\<close>

definition new_pc_Matrix :: "scope \<Rightarrow> state \<Rightarrow> (error + ref) \<times> state" where
  \<comment> \<open>\<open>new pc.Matrix()\<close>: this file defines \<open>Matrix4\<close> only, so the constructor
      \<open>pc.Matrix\<close> comes from the scope, if it exists at all\<close>
  "new_pc_Matrix env s =
     (case pc_Matrix env of
        None \<Rightarrow> (Inl (TypeError ''pc.Matrix is not a constructor''), s)
      | Some ctor \<Rightarrow> (let (r, s) = ctor s in (Inr r, s)))"

definition mul :: "scope \<Rightarrow> ref \<Rightarrow> ref \<Rightarrow> ref option \<Rightarrow> state \<Rightarrow> (error + ref) \<times> state" where
  "mul env lhs rhs res s =
     (case (case res of None \<Rightarrow> new_pc_Matrix env s | Some r \<Rightarrow> (Inr r, s)) of
        (Inl e, s) \<Rightarrow> (Inl e, s)
      | (Inr res, s) \<Rightarrow>
         (let a = lhs;
              b = rhs;
              r = res;
              a00 = rd s a 0;
              a01 = rd s a 1;
              a02 = rd s a 2;
              a03 = rd s a 3;
              a10 = rd s a 4;
              a11 = rd s a 5;
              a12 = rd s a 6;
              a13 = rd s a 7;
              a20 = rd s a 8;
              a21 = rd s a 9;
              a22 = rd s a 10;
              a23 = rd s a 11;
              a30 = rd s a 12;
              a31 = rd s a 13;
              a32 = rd s a 14;
              a33 = rd s a 15;
              b0 = rd s b 0;
              b1 = rd s b 1;
              b2 = rd s b 2;
              b3 = rd s b 3;
              s = wr r 0 (a00 * b0 + a10 * b1 + a20 * b2 + a30 * b3) s;
              s = wr r 1 (a01 * b0 + a11 * b1 + a21 * b2 + a31 * b3) s;
              s = wr r 2 (a02 * b0 + a12 * b1 + a22 * b2 + a32 * b3) s;
              s = wr r 3 (a03 * b0 + a13 * b1 + a23 * b2 + a33 * b3) s;
              b0 = rd s b 4;
              b1 = rd s b 5;
              b2 = rd s b 6;
              b3 = rd s b 7;
              s = wr r 4 (a00 * b0 + a10 * b1 + a20 * b2 + a30 * b3) s;
              s = wr r 5 (a01 * b0 + a11 * b1 + a21 * b2 + a31 * b3) s;
              s = wr r 6 (a02 * b0 + a12 * b1 + a22 * b2 + a32 * b3) s;
              s = wr r 7 (a03 * b0 + a13 * b1 + a23 * b2 + a33 * b3) s;
              b0 = rd s b 8;
              b1 = rd s b 9;
              b2 = rd s b 10;
              b3 = rd s b 11;
              s = wr r 8 (a00 * b0 + a10 * b1 + a20 * b2 + a30 * b3) s;
              s = wr r 9 (a01 * b0 + a11 * b1 + a21 * b2 + a31 * b3) s;
              s = wr r 10 (a02 * b0 + a12 * b1 + a22 * b2 + a32 * b3) s;
              s = wr r 11 (a03 * b0 + a13 * b1 + a23 * b2 + a33 * b3) s;
              b0 = rd s b 12;
              b1 = rd s b 13;
              b2 = rd s b 14;
              b3 = rd s b 15;
              s = wr r 12 (a00 * b0 + a10 * b1 + a20 * b2 + a30 * b3) s;
              s = wr r 13 (a01 * b0 + a11 * b1 + a21 * b2 + a31 * b3) s;
              s = wr r 14 (a02 * b0 + a12 * b1 + a22 * b2 + a32 * b3) s;
              s = wr r 15 (a03 * b0 + a13 * b1 + a23 * b2 + a33 * b3) s
          in (Inr res, s)))"

definition new_pc_Vector3 :: "state \<Rightarrow> ref \<times> state" where
  \<comment> \<open>Modelled from the spec: the 3-component vector type is an external collaborator
      of this file. A vector is, like a matrix, identified with its \<open>data\<close> array, which
      \<open>new pc.Vector3()\<close> allocates with three zero components.\<close>
  "new_pc_Vector3 s = alloc [0, 0, 0] s"

definition mulVec3 :: "ref \<Rightarrow> ref \<Rightarrow> real \<Rightarrow> ref option \<Rightarrow> state \<Rightarrow> ref \<times> state" where
  "mulVec3 mtx vec w res s =
     (let (res, s) = (case res of None \<Rightarrow> new_pc_Vector3 s | Some r \<Rightarrow> (r, s));
          m = mtx;
          v = vec;
          r = res;
          x = rd s v 0 * rd s m 0 +
              rd s v 1 * rd s m 4 +
              rd s v 2 * rd s m 8 +
              w * rd s m 12;
          y = rd s v 0 * rd s m 1 +
              rd s v 1 * rd s m 5 +
              rd s v 2 * rd s m 9 +
              w * rd s m 13;
          z = rd s v 0 * rd s m 2 +
              rd s v 1 * rd s m 6 +
              rd s v 2 * rd s m 10 +
              w * rd s m 14;
          s = wr r 0 x s;
          s = wr r 1 y s;
          s = wr r 2 z s
      in (res, s))"

subsection \<open>lookAt\<close>

definition v3_subtract :: "real list \<Rightarrow> real list \<Rightarrow> real list" where
  \<comment> \<open>Modelled from the spec: \<open>subtract\<close> of the external 3-component vector type,
      the componentwise difference\<close>
  "v3_subtract a b = [a ! 0 - b ! 0, a ! 1 - b ! 1, a ! 2 - b ! 2]"

definition v3_length :: "real list \<Rightarrow> real" where
  \<comment> \<open>Modelled from the spec: \<open>length\<close> of the external 3-component vector type,
      the Euclidean norm\<close>
  "v3_length v = sqrt (v ! 0 * v ! 0 + v ! 1 * v ! 1 + v ! 2 * v ! 2)"

definition v3_normalize :: "real list \<Rightarrow> real list" where
  \<comment> \<open>Modelled from the spec: \<open>normalize\<close> of the external 3-component vector type,
      each component divided by the length (meaningful for a non-zero vector only)\<close>
  "v3_normalize v = [v ! 0 / v3_length v, v ! 1 / v3_length v, v ! 2 / v3_length v]"

definition v3_cross :: "real list \<Rightarrow> real list \<Rightarrow> real list" where
  \<comment> \<open>Modelled from the spec: \<open>cross\<close> of the external 3-component vector type,
      the right-handed cross product\<close>
  "v3_cross a b =
     [a ! 1 * b ! 2 - a ! 2 * b ! 1, a ! 2 * b ! 0 - a ! 0 * b ! 2, a ! 0 * b ! 1 - a ! 1 * b ! 0]"

datatype plain_Vector3_call = ReturnsUndefined | ReturnsVector "real list \<Rightarrow> nat \<Rightarrow> real"

text \<open>
  The enclosing closure of \<open>lookAt\<close> creates its scratch vectors with
  \<open>var x = pc.Vector3();\<close> (and likewise \<open>y\<close>, \<open>z\<close>): a plain call, without \<open>new\<close>.
  What such a call returns is decided by the external vector type, so it is a parameter.
  \<^item> \<open>ReturnsUndefined\<close>: \<open>pc.Vector3\<close> is a constructor of the shape this file itself
    uses (\<open>var Matrix4 = function () { this.data = ...; }\<close>, no \<open>return\<close>), which every
    other place of the file calls with \<open>new\<close>. The plain call returns \<open>undefined\<close>, and
    the scratch variables hold \<open>undefined\<close>.
  \<^item> \<open>ReturnsVector index\<close>: the plain call returns a vector. The body then also reads
    \<open>x[0]\<close> and \<open>position[0]\<close> where the rest of the file reads \<open>.data[0]\<close>; \<open>index v i\<close>
    is the number that \<open>v[i]\<close> evaluates to on a vector with components \<open>v\<close> in that host
    (a host where it is not a number stores NaN, which the real numbers do not have).
\<close>

definition lookAt ::
  "plain_Vector3_call \<Rightarrow> ref \<Rightarrow> ref \<Rightarrow> ref \<Rightarrow> ref \<Rightarrow> state \<Rightarrow> (error + ref) \<times> state" where
  \<comment> \<open>The first statement, \<open>z.subtract(position, target)\<close>, reads a property of \<open>z\<close>,
      which raises a TypeError when \<open>z\<close> is \<open>undefined\<close>. Otherwise the scratch vectors
      are private to this function and overwritten before they are read, so they are
      local values here. The arguments are vectors in the store, which the body only
      reads: \<open>subtract\<close> and \<open>copy\<close> read whole vectors, \<open>position[i]\<close> is an index
      read.\<close>
  "lookAt host this position target up s =
     (case host of
        ReturnsUndefined \<Rightarrow> (Inl (TypeError ''z is undefined''), s)
      | ReturnsVector index \<Rightarrow>
         (let z = v3_normalize (v3_subtract (arrays s position) (arrays s target));
              y = v3_normalize (arrays s up);
              x = v3_normalize (v3_cross y z);
              y = v3_cross z x;
              r = this;
              s = wr r 0 (index x 0) s;
              s = wr r 1 (index x 1) s;
              s = wr r 2 (index x 2) s;
              s = wr r 3 0 s;
              s = wr r 4 (index y 0) s;
              s = wr r 5 (index y 1) s;
              s = wr r 6 (index y 2) s;
              s = wr r 7 0 s;
              s = wr r 8 (index z 0) s;
              s = wr r 9 (index z 1) s;
              s = wr r 10 (index z 2) s;
              s = wr r 11 0 s;
              s = wr r 12 (index (arrays s position) 0) s;
              s = wr r 13 (index (arrays s position) 1) s;
              s = wr r 14 (index (arrays s position) 2) s;
              s = wr r 15 1 s
          in (Inr this, s)))"

subsection \<open>invert\<close>

definition invert :: "ref \<Rightarrow> state \<Rightarrow> ref \<times> state" where
  "invert this s =
     (let m = this;
          a00 = rd s m 0; a01 = rd s m 1; a02 = rd s m 2; a03 = rd s m 3;
          a10 = rd s m 4; a11 = rd s m 5; a12 = rd s m 6; a13 = rd s m 7;
          a20 = rd s m 8; a21 = rd s m 9; a22 = rd s m 10; a23 = rd s m 11;
          a30 = rd s m 12; a31 = rd s m 13; a32 = rd s m 14; a33 = rd s m 15;
          b00 = a00 * a11 - a01 * a10;
          b01 = a00 * a12 - a02 * a10;
          b02 = a00 * a13 - a03 * a10;
          b03 = a01 * a12 - a02 * a11;
          b04 = a01 * a13 - a03 * a11;
          b05 = a02 * a13 - a03 * a12;
          b06 = a20 * a31 - a21 * a30;
          b07 = a20 * a32 - a22 * a30;
          b08 = a20 * a33 - a23 * a30;
          b09 = a21 * a32 - a22 * a31;
          b10 = a21 * a33 - a23 * a31;
          b11 = a22 * a33 - a23 * a32;
          invDet = 1 / (b00 * b11 - b01 * b10 + b02 * b09 + b03 * b08 - b04 * b07 + b05 * b06);
          s = wr m 0 ((a11 * b11 - a12 * b10 + a13 * b09) * invDet) s;
          s = wr m 1 ((- a01 * b11 + a02 * b10 - a03 * b09) * invDet) s;
          s = wr m 2 ((a31 * b05 - a32 * b04 + a33 * b03) * invDet) s;
          s = wr m 3 ((- a21 * b05 + a22 * b04 - a23 * b03) * invDet) s;
          s = wr m 4 ((- a10 * b11 + a12 * b08 - a13 * b07) * invDet) s;
          s = wr m 5 ((a00 * b11 - a02 * b08 + a03 * b07) * invDet) s;
          s = wr m 6 ((- a30 * b05 + a32 * b02 - a33 * b01) * invDet) s;
          s = wr m 7 ((a20 * b05 - a22 * b02 + a23 * b01) * invDet) s;
          s = wr m 8 ((a10 * b10 - a11 * b08 + a13 * b06) * invDet) s;
          s = wr m 9 ((- a00 * b10 + a01 * b08 - a03 * b06) * invDet) s;
          s = wr m 10 ((a30 * b04 - a31 * b02 + a33 * b00) * invDet) s;
          s = wr m 11 ((- a20 * b04 + a21 * b02 - a23 * b00) * invDet) s;
          s = wr m 12 ((- a10 * b09 + a11 * b07 - a12 * b06) * invDet) s;
          s = wr m 13 ((a00 * b09 - a01 * b07 + a02 * b06) * invDet) s;
          s = wr m 14 ((- a30 * b03 + a31 * b01 - a32 * b00) * invDet) s;
          s = wr m 15 ((a20 * b03 - a21 * b01 + a22 * b00) * invDet) s
      in (this, s))"

definition det4 :: "real list \<Rightarrow> real" where
  \<comment> \<open>The determinant of a column-major 4x4 matrix (element \<open>r + c * 4\<close> is row \<open>r\<close>,
      column \<open>c\<close>) by cofactor expansion along the first row. This is the textbook
      definition that the claim about inversion refers to; \<open>invert\<close> computes its own
      expression for it.\<close>
  "det4 m =
     m ! 0 * (m ! 5 * (m ! 10 * m ! 15 - m ! 14 * m ! 11)
            - m ! 9 * (m ! 6 * m ! 15 - m ! 14 * m ! 7)
            + m ! 13 * (m ! 6 * m ! 11 - m ! 10 * m ! 7))
   - m ! 4 * (m ! 1 * (m ! 10 * m ! 15 - m ! 14 * m ! 11)
            - m ! 9 * (m ! 2 * m ! 15 - m ! 14 * m ! 3)
            + m ! 13 * (m ! 2 * m ! 11 - m ! 10 * m ! 3))
   + m ! 8 * (m ! 1 * (m ! 6 * m ! 15 - m ! 14 * m ! 7)
            - m ! 5 * (m ! 2 * m ! 15 - m ! 14 * m ! 3)
            + m ! 13 * (m ! 2 * m ! 7 - m ! 6 * m ! 3))
   - m ! 12 * (m ! 1 * (m ! 6 * m ! 11 - m ! 10 * m ! 7)
             - m ! 5 * (m ! 2 * m ! 11 - m ! 10 * m ! 3)
             + m ! 9 * (m ! 2 * m ! 7 - m ! 6 * m ! 3))"

subsection \<open>transpose, invertTo3x3, setFromEulerXYZ\<close>

definition transpose_m4 :: "scope \<Rightarrow> ref \<Rightarrow> state \<Rightarrow> (error + ref) \<times> state" where
  \<comment> \<open>\<open>transpose\<close>. The body declares \<open>tmp\<close> only; \<open>m\<close> is declared neither in the
      function nor in the enclosing closure, so it is a global lookup.\<close>
  "transpose_m4 env this s =
     (case global_array env ''m'' of
        None \<Rightarrow> (Inl (ReferenceError ''m''), s)
      | Some m \<Rightarrow>
         (let tmp = (0::real);
              tmp = rd s m 1; s = wr m 1 (rd s m 4) s; s = wr m 4 tmp s;
              tmp = rd s m 2; s = wr m 2 (rd s m 8) s; s = wr m 8 tmp s;
              tmp = rd s m 3; s = wr m 3 (rd s m 12) s; s = wr m 12 tmp s;
              tmp = rd s m 6; s = wr m 6 (rd s m 9) s; s = wr m 9 tmp s;
              tmp = rd s m 7; s = wr m 7 (rd s m 13) s; s = wr m 13 tmp s;
              tmp = rd s m 11; s = wr m 11 (rd s m 14) s; s = wr m 14 tmp s
          in (Inr this, s)))"

definition invertTo3x3 :: "scope \<Rightarrow> ref \<Rightarrow> state \<Rightarrow> (error + ref) \<times> state" where
  \<comment> \<open>The body declares \<open>m\<close> and the cofactors; \<open>r\<close> is declared neither in the function
      nor in the enclosing closure, so it is a global lookup.\<close>
  "invertTo3x3 env this s =
     (let m = this;
          a11 = rd s m 10 * rd s m 5 - rd s m 6 * rd s m 9;
          a21 = - rd s m 10 * rd s m 1 + rd s m 2 * rd s m 9;
          a31 = rd s m 6 * rd s m 1 - rd s m 2 * rd s m 5;
          a12 = - rd s m 10 * rd s m 4 + rd s m 6 * rd s m 8;
          a22 = rd s m 10 * rd s m 0 - rd s m 2 * rd s m 8;
          a32 = - rd s m 6 * rd s m 0 + rd s m 2 * rd s m 4;
          a13 = rd s m 9 * rd s m 4 - rd s m 5 * rd s m 8;
          a23 = - rd s m 9 * rd s m 0 + rd s m 1 * rd s m 8;
          a33 = rd s m 5 * rd s m 0 - rd s m 1 * rd s m 4;
          det = rd s m 0 * a11 + rd s m 1 * a12 + rd s m 2 * a13
      in if det = 0 then
           (let s = s\<lparr>console := console s @ [''pc.Matrix4#invertTo3x3: Matrix not invertible'']\<rparr>
            in case global_array env ''r'' of
                 None \<Rightarrow> (Inl (ReferenceError ''r''), s)
               | Some r \<Rightarrow> (Inr r, s))
         else
           (let idet = 1 / det
            in case global_array env ''r'' of
                 None \<Rightarrow> (Inl (ReferenceError ''r''), s)
               | Some r \<Rightarrow>
                  (let s = wr r 0 (idet * a11) s;
                       s = wr r 1 (idet * a21) s;
                       s = wr r 2 (idet * a31) s;
                       s = wr r 3 (idet * a12) s;
                       s = wr r 4 (idet * a22) s;
                       s = wr r 5 (idet * a32) s;
                       s = wr r 6 (idet * a13) s;
                       s = wr r 7 (idet * a23) s;
                       s = wr r 8 (idet * a33) s
                   in (Inr this, s))))"

definition setFromEulerXYZ ::
  "scope \<Rightarrow> ref \<Rightarrow> real \<Rightarrow> real \<Rightarrow> real \<Rightarrow> state \<Rightarrow> (error + ref) \<times> state" where
  \<comment> \<open>The parameters are \<open>ex\<close>, \<open>ey\<close>, \<open>ez\<close>; the body reads \<open>x\<close>, \<open>y\<close>, \<open>z\<close>, which
      are declared neither in the function nor in the enclosing closure, so they are
      global lookups, made in this order.\<close>
  "setFromEulerXYZ env this ex ey ez s =
     (case global_number env ''x'' of
        None \<Rightarrow> (Inl (ReferenceError ''x''), s)
      | Some x \<Rightarrow>
     (case global_number env ''y'' of
        None \<Rightarrow> (Inl (ReferenceError ''y''), s)
      | Some y \<Rightarrow>
     (case global_number env ''z'' of
        None \<Rightarrow> (Inl (ReferenceError ''z''), s)
      | Some z \<Rightarrow>
         (let s1 = sin (- x);
              c1 = cos (- x);
              s2 = sin (- y);
              c2 = cos (- y);
              s3 = sin (- z);
              c3 = cos (- z);
              m = this;
              s = wr m 0 (c2 * c3) s;
              s = wr m 1 (- c2 * s3) s;
              s = wr m 2 s2 s;
              s = wr m 3 0 s;
              s = wr m 4 (c1 * s3 + c3 * s1 * s2) s;
              s = wr m 5 (c1 * c3 - s1 * s2 * s3) s;
              s = wr m 6 (- c2 * s1) s;
              s = wr m 7 0 s;
              s = wr m 8 (s1 * s3 - c1 * c3 * s2) s;
              s = wr m 9 (c3 * s1 + c1 * s2 * s3) s;
              s = wr m 10 (c1 * c2) s;
              s = wr m 11 0 s;
              s = wr m 12 0 s;
              s = wr m 13 0 s;
              s = wr m 14 0 s;
              s = wr m 15 1 s
          in (Inr this, s)))))"

definition det3 :: "real list \<Rightarrow> real" where
  \<comment> \<open>The determinant of the upper-left 3x3 block of a column-major 4x4 matrix, by
      cofactor expansion along its first row: the textbook definition that the claim about
      \<open>invertTo3x3\<close> refers to.\<close>
  "det3 m =
     m ! 0 * (m ! 5 * m ! 10 - m ! 9 * m ! 6)
   - m ! 4 * (m ! 1 * m ! 10 - m ! 9 * m ! 2)
   + m ! 8 * (m ! 1 * m ! 6 - m ! 5 * m ! 2)"

subsection \<open>A concrete store\<close>

definition example_state :: state where
  \<comment> \<open>matrix 0 holds 1..16, matrix 1 is \<open>translate(10, 20, 30)\<close> times \<open>scale(2, 3, 4)\<close>,
      matrix 2 is zero, matrix 3 is the identity with rows and columns permuted;
      5 to 9 are vectors\<close>
  "example_state =
     \<lparr>arrays = (\<lambda>_. [])
        (0 := [1, 2, 3, 4, 5, 6, 7, 8, 9, 10, 11, 12, 13, 14, 15, 16],
         1 := [2, 0, 0, 0, 0, 3, 0, 0, 0, 0, 4, 0, 10, 20, 30, 1],
         2 := [0, 0, 0, 0, 0, 0, 0, 0, 0, 0, 0, 0, 0, 0, 0, 0],
         3 := [0, 0, 0, 0, 1, 0, 0, 0, 0, 0, 0, 0, 0, 0, 0, 0],
         5 := [0, 1, 0],
         6 := [0, 0, 0],
         7 := [1, 0, 0],
         8 := [1, 2, 3],
         9 := [5, 0, 0]),
      next_ref = 10,
      console = []\<rparr>"

section \<open>Helper lemmas\<close>

lemma list16:
  assumes "length (xs :: 'a list) = 16"
  obtains x0 x1 x2 x3 x4 x5 x6 x7 x8 x9 x10 x11 x12 x13 x14 x15
  where "xs = [x0, x1, x2, x3, x4, x5, x6, x7, x8, x9, x10, x11, x12, x13, x14, x15]"
proof -
  from assms have "\<exists>x0 x1 x2 x3 x4 x5 x6 x7 x8 x9 x10 x11 x12 x13 x14 x15.
      xs = [x0, x1, x2, x3, x4, x5, x6, x7, x8, x9, x10, x11, x12, x13, x14, x15]"
    by (simp add: numeral_eq_Suc length_Suc_conv) blast
  then show thesis using that by blast
qed

lemma setIdentity_arrays:
  assumes "length (arrays s this) = 16"
  shows "arrays (snd (setIdentity this s)) = (arrays s)(this := identity16)"
proof -
  from assms obtain x0 x1 x2 x3 x4 x5 x6 x7 x8 x9 x10 x11 x12 x13 x14 x15
    where "arrays s this = [x0, x1, x2, x3, x4, x5, x6, x7, x8, x9, x10, x11, x12, x13, x14, x15]"
    by (rule list16)
  then show ?thesis
    by (simp add: setIdentity_def wr_def identity16_def)
qed

lemma setIdentity_fst: "fst (setIdentity this s) = this"
  by (simp add: setIdentity_def Let_def)

section \<open>The constructor\<close>

text \<open>
  Claim C10. The constructor initialises the storage to the identity matrix for every
  argument count other than 16, and only for exactly 16 arguments sets the storage from
  the arguments in order.
\<close>

theorem Matrix4_constructor_argument_count:
  "(length args \<noteq> 16 \<longrightarrow> data_of (Matrix4 args s) = identity16) \<and>
   (length args = 16 \<longrightarrow> data_of (Matrix4 args s) = args)"
proof (intro conjI impI)
  assume "length args \<noteq> 16"
  then show "data_of (Matrix4 args s) = identity16"
    by (simp add: Matrix4_def alloc_def data_of_def setIdentity_arrays setIdentity_fst)
next
  assume "length args = 16"
  then show "data_of (Matrix4 args s) = args"
    by (simp add: Matrix4_def alloc_def data_of_def typed_array_set_def)
qed

theorem Matrix4_constructor_argument_count_witness:
  "length [7 :: real] \<noteq> 16 \<and> data_of (Matrix4 [7] empty_state) = identity16 \<and>
   length [1, 2, 3 :: real] \<noteq> 16 \<and> data_of (Matrix4 [1, 2, 3] empty_state) = identity16 \<and>
   length [1, 2, 3, 4, 5, 6, 7, 8, 9, 10, 11, 12, 13, 14, 15, 16, 17 :: real] \<noteq> 16 \<and>
   data_of (Matrix4 [1, 2, 3, 4, 5, 6, 7, 8, 9, 10, 11, 12, 13, 14, 15, 16, 17] empty_state)
     = identity16 \<and>
   length [1, 2, 3, 4, 5, 6, 7, 8, 9, 10, 11, 12, 13, 14, 15, 16 :: real] = 16 \<and>
   data_of (Matrix4 [1, 2, 3, 4, 5, 6, 7, 8, 9, 10, 11, 12, 13, 14, 15, 16] empty_state)
     = [1, 2, 3, 4, 5, 6, 7, 8, 9, 10, 11, 12, 13, 14, 15, 16]"
  using Matrix4_constructor_argument_count [of "[7]" empty_state]
    Matrix4_constructor_argument_count [of "[1, 2, 3]" empty_state]
    Matrix4_constructor_argument_count
      [of "[1, 2, 3, 4, 5, 6, 7, 8, 9, 10, 11, 12, 13, 14, 15, 16, 17]" empty_state]
    Matrix4_constructor_argument_count
      [of "[1, 2, 3, 4, 5, 6, 7, 8, 9, 10, 11, 12, 13, 14, 15, 16]" empty_state]
  by simp

section \<open>Reading and writing the store\<close>

lemma rd_wr_other_index: "i \<noteq> j \<Longrightarrow> rd (wr a i v s) b j = rd s b j"
  by (simp add: rd_def wr_def)

lemma wr16:
  assumes "length (arrays s r) = 16"
  shows "wr r 15 e15 (wr r 14 e14 (wr r 13 e13 (wr r 12 e12 (wr r 11 e11 (wr r 10 e10
          (wr r 9 e9 (wr r 8 e8 (wr r 7 e7 (wr r 6 e6 (wr r 5 e5 (wr r 4 e4 (wr r 3 e3
          (wr r 2 e2 (wr r 1 e1 (wr r 0 e0 s)))))))))))))))
         = s\<lparr>arrays := (arrays s)(r :=
             [e0, e1, e2, e3, e4, e5, e6, e7, e8, e9, e10, e11, e12, e13, e14, e15])\<rparr>"
proof -
  from assms obtain x0 x1 x2 x3 x4 x5 x6 x7 x8 x9 x10 x11 x12 x13 x14 x15
    where "arrays s r = [x0, x1, x2, x3, x4, x5, x6, x7, x8, x9, x10, x11, x12, x13, x14, x15]"
    by (rule list16)
  then show ?thesis
    by (simp add: wr_def)
qed

lemma rd16:
  assumes "arrays s a = [a0, a1, a2, a3, a4, a5, a6, a7, a8, a9, a10, a11, a12, a13, a14, a15]"
  shows "rd s a 0 = a0" "rd s a 1 = a1" "rd s a 2 = a2" "rd s a 3 = a3"
    "rd s a 4 = a4" "rd s a 5 = a5" "rd s a 6 = a6" "rd s a 7 = a7"
    "rd s a 8 = a8" "rd s a 9 = a9" "rd s a 10 = a10" "rd s a 11 = a11"
    "rd s a 12 = a12" "rd s a 13 = a13" "rd s a 14 = a14" "rd s a 15 = a15"
  by (simp_all add: rd_def assms)

lemma index4: "(r::nat) < 4 \<Longrightarrow> r = 0 \<or> r = 1 \<or> r = 2 \<or> r = 3"
  by arith

section \<open>Matrix product\<close>

text \<open>
  The effect of \<open>Matrix4.mul\<close> with a result matrix, on the contents of the operands
  before the call. Neither premise excludes that \<open>out\<close> is \<open>lhs\<close> or \<open>rhs\<close>: every entry
  of \<open>lhs\<close> is read before the first store, and column \<open>j\<close> of \<open>rhs\<close> is read before
  column \<open>j\<close> of the result is stored.
\<close>

lemma mul_arrays:
  assumes a: "arrays s lhs = [a0, a1, a2, a3, a4, a5, a6, a7, a8, a9, a10, a11, a12, a13, a14, a15]"
    and b: "arrays s rhs = [b0, b1, b2, b3, b4, b5, b6, b7, b8, b9, b10, b11, b12, b13, b14, b15]"
    and r: "length (arrays s out) = 16"
  shows "mul env lhs rhs (Some out) s =
     (Inr out, s\<lparr>arrays := (arrays s)(out :=
        [a0 * b0 + a4 * b1 + a8 * b2 + a12 * b3,
         a1 * b0 + a5 * b1 + a9 * b2 + a13 * b3,
         a2 * b0 + a6 * b1 + a10 * b2 + a14 * b3,
         a3 * b0 + a7 * b1 + a11 * b2 + a15 * b3,
         a0 * b4 + a4 * b5 + a8 * b6 + a12 * b7,
         a1 * b4 + a5 * b5 + a9 * b6 + a13 * b7,
         a2 * b4 + a6 * b5 + a10 * b6 + a14 * b7,
         a3 * b4 + a7 * b5 + a11 * b6 + a15 * b7,
         a0 * b8 + a4 * b9 + a8 * b10 + a12 * b11,
         a1 * b8 + a5 * b9 + a9 * b10 + a13 * b11,
         a2 * b8 + a6 * b9 + a10 * b10 + a14 * b11,
         a3 * b8 + a7 * b9 + a11 * b10 + a15 * b11,
         a0 * b12 + a4 * b13 + a8 * b14 + a12 * b15,
         a1 * b12 + a5 * b13 + a9 * b14 + a13 * b15,
         a2 * b12 + a6 * b13 + a10 * b14 + a14 * b15,
         a3 * b12 + a7 * b13 + a11 * b14 + a15 * b15])\<rparr>)"
  by (simp add: mul_def Let_def rd_wr_other_index rd16 [OF a] rd16 [OF b] wr16 [OF r]
      del: One_nat_def)

text \<open>
  Without a result matrix, \<open>Matrix4.mul\<close> allocates one through \<open>pc.Matrix\<close>, which
  this file does not define.
\<close>

lemma mul_without_result:
  assumes "pc_Matrix env = None"
  shows "mul env lhs rhs None s = (Inl (TypeError ''pc.Matrix is not a constructor''), s)"
  by (simp add: mul_def new_pc_Matrix_def assms)

text \<open>
  Claim C1. \<open>Matrix4.mul(lhs, rhs, out)\<close> returns \<open>out\<close> and stores in it the matrix
  product of \<open>lhs\<close> and \<open>rhs\<close> in the column-major layout: for every row \<open>r\<close> and column
  \<open>j\<close>, entry \<open>r + j * 4\<close> of \<open>out\<close> is the sum over \<open>k\<close> of
  \<open>lhs[r + k * 4] * rhs[k + j * 4]\<close>, the operands taken before the call.
\<close>

theorem mul_is_matrix_product:
  assumes "length (arrays s lhs) = 16" and "length (arrays s rhs) = 16"
    and "length (arrays s out) = 16" and "r < 4" and "j < 4"
  shows "fst (mul env lhs rhs (Some out) s) = Inr out \<and>
         arrays (snd (mul env lhs rhs (Some out) s)) out ! (r + j * 4) =
           (\<Sum>k<4. arrays s lhs ! (r + k * 4) * arrays s rhs ! (k + j * 4))"
proof -
  from assms(1) obtain a0 a1 a2 a3 a4 a5 a6 a7 a8 a9 a10 a11 a12 a13 a14 a15
    where a: "arrays s lhs = [a0, a1, a2, a3, a4, a5, a6, a7, a8, a9, a10, a11, a12, a13, a14, a15]"
    by (rule list16)
  from assms(2) obtain b0 b1 b2 b3 b4 b5 b6 b7 b8 b9 b10 b11 b12 b13 b14 b15
    where b: "arrays s rhs = [b0, b1, b2, b3, b4, b5, b6, b7, b8, b9, b10, b11, b12, b13, b14, b15]"
    by (rule list16)
  note m = mul_arrays [OF a b assms(3), of env]
  from index4 [OF assms(4)] index4 [OF assms(5)] show ?thesis
    by (elim disjE) (simp_all add: m a b eval_nat_numeral)
qed

theorem mul_is_matrix_product_witness:
  "length (arrays example_state 0) = 16 \<and> length (arrays example_state 1) = 16 \<and>
   length (arrays example_state 2) = 16 \<and> (1::nat) < 4 \<and> (2::nat) < 4 \<and>
   fst (mul no_globals 0 1 (Some 2) example_state) = Inr 2 \<and>
   arrays (snd (mul no_globals 0 1 (Some 2) example_state)) 2 ! (1 + 2 * 4) = 40 \<and>
   fst (mul no_globals 0 1 (Some 0) example_state) = Inr 0 \<and>
   arrays (snd (mul no_globals 0 1 (Some 0) example_state)) 0 ! (1 + 2 * 4) = 40"
proof -
  have h: "length (arrays example_state 0) = 16" "length (arrays example_state 1) = 16"
    "length (arrays example_state 2) = 16" "(1::nat) < 4" "(2::nat) < 4"
    by (simp_all add: example_state_def)
  have "(\<Sum>k<4. arrays example_state 0 ! (1 + k * 4) * arrays example_state 1 ! (k + 2 * 4)) = 40"
    by (simp add: example_state_def eval_nat_numeral)
  with h mul_is_matrix_product [OF h, of no_globals]
    mul_is_matrix_product [OF h(1,2,1,4,5), of no_globals]
  show ?thesis
    by simp
qed

section \<open>Multiplicative identity\<close>

text \<open>
  Claim C3. Multiplying by the identity matrix on either side returns \<open>M\<close> with all 16
  entries equal: after \<open>setIdentity\<close> has made \<open>I\<close> the identity, both
  \<open>mul(I, M, out)\<close> and \<open>mul(M, I, out)\<close> leave in \<open>out\<close> the entries of \<open>M\<close>.
\<close>

theorem mul_identity:
  assumes "length (arrays s I) = 16" and "length (arrays s M) = 16"
    and "length (arrays s out) = 16" and "I \<noteq> M"
  shows "arrays (snd (mul env I M (Some out) (snd (setIdentity I s)))) out = arrays s M \<and>
         arrays (snd (mul env M I (Some out) (snd (setIdentity I s)))) out = arrays s M"
proof -
  define s1 where "s1 = snd (setIdentity I s)"
  have arr: "arrays s1 = (arrays s)(I := identity16)"
    unfolding s1_def using assms(1) by (rule setIdentity_arrays)
  from assms(2) obtain b0 b1 b2 b3 b4 b5 b6 b7 b8 b9 b10 b11 b12 b13 b14 b15
    where "arrays s M = [b0, b1, b2, b3, b4, b5, b6, b7, b8, b9, b10, b11, b12, b13, b14, b15]"
    by (rule list16)
  with assms(4) arr
  have m: "arrays s1 M = [b0, b1, b2, b3, b4, b5, b6, b7, b8, b9, b10, b11, b12, b13, b14, b15]"
    and sM: "arrays s M = [b0, b1, b2, b3, b4, b5, b6, b7, b8, b9, b10, b11, b12, b13, b14, b15]"
    by simp_all
  have i: "arrays s1 I = [1, 0, 0, 0, 0, 1, 0, 0, 0, 0, 1, 0, 0, 0, 0, 1]"
    by (simp add: arr identity16_def)
  have out: "length (arrays s1 out) = 16"
    using assms(3) by (simp add: arr identity16_def)
  have "arrays (snd (mul env I M (Some out) s1)) out = arrays s M"
    by (simp add: mul_arrays [OF i m out] sM)
  moreover have "arrays (snd (mul env M I (Some out) s1)) out = arrays s M"
    by (simp add: mul_arrays [OF m i out] sM)
  ultimately show ?thesis
    by (simp add: s1_def)
qed

theorem mul_identity_witness:
  "length (arrays example_state 2) = 16 \<and> length (arrays example_state 0) = 16 \<and>
   length (arrays example_state 3) = 16 \<and> (2::nat) \<noteq> 0 \<and>
   arrays (snd (mul no_globals 2 0 (Some 3) (snd (setIdentity 2 example_state)))) 3
     = [1, 2, 3, 4, 5, 6, 7, 8, 9, 10, 11, 12, 13, 14, 15, 16] \<and>
   arrays (snd (mul no_globals 0 2 (Some 3) (snd (setIdentity 2 example_state)))) 3
     = [1, 2, 3, 4, 5, 6, 7, 8, 9, 10, 11, 12, 13, 14, 15, 16]"
proof -
  have h: "length (arrays example_state 2) = 16" "length (arrays example_state 0) = 16"
    "length (arrays example_state 3) = 16" "(2::nat) \<noteq> 0"
    by (simp_all add: example_state_def)
  have "arrays example_state 0 = [1, 2, 3, 4, 5, 6, 7, 8, 9, 10, 11, 12, 13, 14, 15, 16]"
    by (simp add: example_state_def)
  with h mul_identity [OF h, of no_globals] show ?thesis
    by simp
qed

section \<open>Inversion\<close>

text \<open>
  Polynomial identities behind \<open>invert\<close>: with the twelve 2x2 minors \<open>b00\<close> to \<open>b11\<close>
  of the body and its denominator \<open>D\<close>, the product of the matrix with the sixteen
  numerators is \<open>D\<close> on the diagonal and \<open>0\<close> elsewhere, and \<open>D\<close> is the determinant.
\<close>

lemma adjugate_product:
  fixes a00 a01 a02 a03 a10 a11 a12 a13 a20 a21 a22 a23 a30 a31 a32 a33 :: real
  assumes b: "b00 = a00 * a11 - a01 * a10"
    "b01 = a00 * a12 - a02 * a10"
    "b02 = a00 * a13 - a03 * a10"
    "b03 = a01 * a12 - a02 * a11"
    "b04 = a01 * a13 - a03 * a11"
    "b05 = a02 * a13 - a03 * a12"
    "b06 = a20 * a31 - a21 * a30"
    "b07 = a20 * a32 - a22 * a30"
    "b08 = a20 * a33 - a23 * a30"
    "b09 = a21 * a32 - a22 * a31"
    "b10 = a21 * a33 - a23 * a31"
    "b11 = a22 * a33 - a23 * a32"
    and d: "D = b00 * b11 - b01 * b10 + b02 * b09 + b03 * b08 - b04 * b07 + b05 * b06"
  shows "a00 * (a11 * b11 - a12 * b10 + a13 * b09) + a10 * (- a01 * b11 + a02 * b10 - a03 * b09) + a20 * (a31 * b05 - a32 * b04 + a33 * b03) + a30 * (- a21 * b05 + a22 * b04 - a23 * b03) = D"
    "a01 * (a11 * b11 - a12 * b10 + a13 * b09) + a11 * (- a01 * b11 + a02 * b10 - a03 * b09) + a21 * (a31 * b05 - a32 * b04 + a33 * b03) + a31 * (- a21 * b05 + a22 * b04 - a23 * b03) = 0"
    "a02 * (a11 * b11 - a12 * b10 + a13 * b09) + a12 * (- a01 * b11 + a02 * b10 - a03 * b09) + a22 * (a31 * b05 - a32 * b04 + a33 * b03) + a32 * (- a21 * b05 + a22 * b04 - a23 * b03) = 0"
    "a03 * (a11 * b11 - a12 * b10 + a13 * b09) + a13 * (- a01 * b11 + a02 * b10 - a03 * b09) + a23 * (a31 * b05 - a32 * b04 + a33 * b03) + a33 * (- a21 * b05 + a22 * b04 - a23 * b03) = 0"
    "a00 * (- a10 * b11 + a12 * b08 - a13 * b07) + a10 * (a00 * b11 - a02 * b08 + a03 * b07) + a20 * (- a30 * b05 + a32 * b02 - a33 * b01) + a30 * (a20 * b05 - a22 * b02 + a23 * b01) = 0"
    "a01 * (- a10 * b11 + a12 * b08 - a13 * b07) + a11 * (a00 * b11 - a02 * b08 + a03 * b07) + a21 * (- a30 * b05 + a32 * b02 - a33 * b01) + a31 * (a20 * b05 - a22 * b02 + a23 * b01) = D"
    "a02 * (- a10 * b11 + a12 * b08 - a13 * b07) + a12 * (a00 * b11 - a02 * b08 + a03 * b07) + a22 * (- a30 * b05 + a32 * b02 - a33 * b01) + a32 * (a20 * b05 - a22 * b02 + a23 * b01) = 0"
    "a03 * (- a10 * b11 + a12 * b08 - a13 * b07) + a13 * (a00 * b11 - a02 * b08 + a03 * b07) + a23 * (- a30 * b05 + a32 * b02 - a33 * b01) + a33 * (a20 * b05 - a22 * b02 + a23 * b01) = 0"
    "a00 * (a10 * b10 - a11 * b08 + a13 * b06) + a10 * (- a00 * b10 + a01 * b08 - a03 * b06) + a20 * (a30 * b04 - a31 * b02 + a33 * b00) + a30 * (- a20 * b04 + a21 * b02 - a23 * b00) = 0"
    "a01 * (a10 * b10 - a11 * b08 + a13 * b06) + a11 * (- a00 * b10 + a01 * b08 - a03 * b06) + a21 * (a30 * b04 - a31 * b02 + a33 * b00) + a31 * (- a20 * b04 + a21 * b02 - a23 * b00) = 0"
    "a02 * (a10 * b10 - a11 * b08 + a13 * b06) + a12 * (- a00 * b10 + a01 * b08 - a03 * b06) + a22 * (a30 * b04 - a31 * b02 + a33 * b00) + a32 * (- a20 * b04 + a21 * b02 - a23 * b00) = D"
    "a03 * (a10 * b10 - a11 * b08 + a13 * b06) + a13 * (- a00 * b10 + a01 * b08 - a03 * b06) + a23 * (a30 * b04 - a31 * b02 + a33 * b00) + a33 * (- a20 * b04 + a21 * b02 - a23 * b00) = 0"
    "a00 * (- a10 * b09 + a11 * b07 - a12 * b06) + a10 * (a00 * b09 - a01 * b07 + a02 * b06) + a20 * (- a30 * b03 + a31 * b01 - a32 * b00) + a30 * (a20 * b03 - a21 * b01 + a22 * b00) = 0"
    "a01 * (- a10 * b09 + a11 * b07 - a12 * b06) + a11 * (a00 * b09 - a01 * b07 + a02 * b06) + a21 * (- a30 * b03 + a31 * b01 - a32 * b00) + a31 * (a20 * b03 - a21 * b01 + a22 * b00) = 0"
    "a02 * (- a10 * b09 + a11 * b07 - a12 * b06) + a12 * (a00 * b09 - a01 * b07 + a02 * b06) + a22 * (- a30 * b03 + a31 * b01 - a32 * b00) + a32 * (a20 * b03 - a21 * b01 + a22 * b00) = 0"
    "a03 * (- a10 * b09 + a11 * b07 - a12 * b06) + a13 * (a00 * b09 - a01 * b07 + a02 * b06) + a23 * (- a30 * b03 + a31 * b01 - a32 * b00) + a33 * (a20 * b03 - a21 * b01 + a22 * b00) = D"
  unfolding b d by algebra+



lemma invert_determinant:
  fixes a00 a01 a02 a03 a10 a11 a12 a13 a20 a21 a22 a23 a30 a31 a32 a33 :: real
  assumes b: "b00 = a00 * a11 - a01 * a10"
    "b01 = a00 * a12 - a02 * a10"
    "b02 = a00 * a13 - a03 * a10"
    "b03 = a01 * a12 - a02 * a11"
    "b04 = a01 * a13 - a03 * a11"
    "b05 = a02 * a13 - a03 * a12"
    "b06 = a20 * a31 - a21 * a30"
    "b07 = a20 * a32 - a22 * a30"
    "b08 = a20 * a33 - a23 * a30"
    "b09 = a21 * a32 - a22 * a31"
    "b10 = a21 * a33 - a23 * a31"
    "b11 = a22 * a33 - a23 * a32"
    and d: "D = b00 * b11 - b01 * b10 + b02 * b09 + b03 * b08 - b04 * b07 + b05 * b06"
  shows "D = det4 [a00, a01, a02, a03, a10, a11, a12, a13, a20, a21, a22, a23, a30, a31, a32, a33]"
  unfolding b d det4_def by (simp del: One_nat_def) algebra

lemma copy_arrays:
  assumes src: "arrays s rhs = [x0, x1, x2, x3, x4, x5, x6, x7, x8, x9, x10, x11, x12, x13, x14, x15]"
    and dst: "length (arrays s this) = 16"
  shows "copy this rhs s = (this, s\<lparr>arrays := (arrays s)(this := [x0, x1, x2, x3, x4, x5, x6, x7, x8, x9, x10, x11, x12, x13, x14, x15])\<rparr>)"
  by (simp add: copy_def Let_def rd_wr_other_index rd16 [OF src] wr16 [OF dst]
      del: One_nat_def)

lemma setIdentity_state:
  assumes "length (arrays s this) = 16"
  shows "setIdentity this s = (this, s\<lparr>arrays := (arrays s)(this := identity16)\<rparr>)"
  by (simp add: setIdentity_def wr16 [OF assms] identity16_def del: One_nat_def)

lemma Matrix4_no_arguments:
  "Matrix4 [] s =
     (next_ref s, s\<lparr>arrays := (arrays s)(next_ref s := identity16), next_ref := Suc (next_ref s)\<rparr>)"
  by (simp add: Matrix4_def alloc_def setIdentity_state)

lemma clone_arrays:
  assumes src: "arrays s this = [x0, x1, x2, x3, x4, x5, x6, x7, x8, x9, x10, x11, x12, x13, x14, x15]"
    and old: "this < next_ref s"
  shows "clone this s =
     (next_ref s, s\<lparr>arrays := (arrays s)(next_ref s := [x0, x1, x2, x3, x4, x5, x6, x7, x8, x9, x10, x11, x12, x13, x14, x15]), next_ref := Suc (next_ref s)\<rparr>)"
proof -
  define s1 where
    "s1 = s\<lparr>arrays := (arrays s)(next_ref s := identity16), next_ref := Suc (next_ref s)\<rparr>"
  from src old have src1: "arrays s1 this = [x0, x1, x2, x3, x4, x5, x6, x7, x8, x9, x10, x11, x12, x13, x14, x15]"
    by (simp add: s1_def)
  have dst1: "length (arrays s1 (next_ref s)) = 16"
    by (simp add: s1_def identity16_def)
  show ?thesis
    by (simp add: clone_def Matrix4_no_arguments s1_def [symmetric] copy_arrays [OF src1 dst1])
      (simp add: s1_def)
qed

lemma invert_arrays:
  assumes m: "arrays s this = [a00, a01, a02, a03, a10, a11, a12, a13, a20, a21, a22, a23, a30, a31, a32, a33]"
    and b: "b00 = a00 * a11 - a01 * a10"
    "b01 = a00 * a12 - a02 * a10"
    "b02 = a00 * a13 - a03 * a10"
    "b03 = a01 * a12 - a02 * a11"
    "b04 = a01 * a13 - a03 * a11"
    "b05 = a02 * a13 - a03 * a12"
    "b06 = a20 * a31 - a21 * a30"
    "b07 = a20 * a32 - a22 * a30"
    "b08 = a20 * a33 - a23 * a30"
    "b09 = a21 * a32 - a22 * a31"
    "b10 = a21 * a33 - a23 * a31"
    "b11 = a22 * a33 - a23 * a32"
    and d: "invDet = 1 / (b00 * b11 - b01 * b10 + b02 * b09 + b03 * b08 - b04 * b07 + b05 * b06)"
  shows "invert this s = (this, s\<lparr>arrays := (arrays s)(this :=
     [(a11 * b11 - a12 * b10 + a13 * b09) * invDet,
      (- a01 * b11 + a02 * b10 - a03 * b09) * invDet,
      (a31 * b05 - a32 * b04 + a33 * b03) * invDet,
      (- a21 * b05 + a22 * b04 - a23 * b03) * invDet,
      (- a10 * b11 + a12 * b08 - a13 * b07) * invDet,
      (a00 * b11 - a02 * b08 + a03 * b07) * invDet,
      (- a30 * b05 + a32 * b02 - a33 * b01) * invDet,
      (a20 * b05 - a22 * b02 + a23 * b01) * invDet,
      (a10 * b10 - a11 * b08 + a13 * b06) * invDet,
      (- a00 * b10 + a01 * b08 - a03 * b06) * invDet,
      (a30 * b04 - a31 * b02 + a33 * b00) * invDet,
      (- a20 * b04 + a21 * b02 - a23 * b00) * invDet,
      (- a10 * b09 + a11 * b07 - a12 * b06) * invDet,
      (a00 * b09 - a01 * b07 + a02 * b06) * invDet,
      (- a30 * b03 + a31 * b01 - a32 * b00) * invDet,
      (a20 * b03 - a21 * b01 + a22 * b00) * invDet])\<rparr>)"
proof -
  have len: "length (arrays s this) = 16"
    by (simp add: m)
  show ?thesis
    by (simp add: invert_def Let_def rd16 [OF m] wr16 [OF len] b d del: One_nat_def)
qed


lemma dot4_scale:
  fixes a b c d x y z w k :: real
  shows "a * (x * k) + b * (y * k) + c * (z * k) + d * (w * k) = (a * x + b * y + c * z + d * w) * k"
  by (simp add: algebra_simps)

lemma det4_identity: "det4 identity16 = 1"
  by (simp add: det4_def identity16_def)

text \<open>
  Claim C2. For every matrix \<open>M\<close> with non-zero determinant, multiplying \<open>M\<close> by the
  result of \<open>invert()\<close> applied to a clone of \<open>M\<close> yields the identity matrix, exactly
  over the reals: \<open>mul(M, invert(clone(M)), out)\<close> leaves the identity in \<open>out\<close>.
\<close>

theorem invert_round_trip:
  assumes M: "wf s M" and out: "wf s out" and det: "det4 (arrays s M) \<noteq> 0"
  shows "(let (c, s1) = clone M s; (i, s2) = invert c s1
          in arrays (snd (mul env M i (Some out) s2)) out) = identity16"
proof -
  from M have "length (arrays s M) = 16" and old: "M < next_ref s"
    by (simp_all add: wf_def)
  then obtain a00 a01 a02 a03 a10 a11 a12 a13 a20 a21 a22 a23 a30 a31 a32 a33
    where m: "arrays s M = [a00, a01, a02, a03, a10, a11, a12, a13, a20, a21, a22, a23, a30, a31, a32, a33]"
    by (elim list16)
  define b00 where "b00 = a00 * a11 - a01 * a10"
  define b01 where "b01 = a00 * a12 - a02 * a10"
  define b02 where "b02 = a00 * a13 - a03 * a10"
  define b03 where "b03 = a01 * a12 - a02 * a11"
  define b04 where "b04 = a01 * a13 - a03 * a11"
  define b05 where "b05 = a02 * a13 - a03 * a12"
  define b06 where "b06 = a20 * a31 - a21 * a30"
  define b07 where "b07 = a20 * a32 - a22 * a30"
  define b08 where "b08 = a20 * a33 - a23 * a30"
  define b09 where "b09 = a21 * a32 - a22 * a31"
  define b10 where "b10 = a21 * a33 - a23 * a31"
  define b11 where "b11 = a22 * a33 - a23 * a32"
  define D where "D = b00 * b11 - b01 * b10 + b02 * b09 + b03 * b08 - b04 * b07 + b05 * b06"
  define invDet where "invDet = 1 / (b00 * b11 - b01 * b10 + b02 * b09 + b03 * b08 - b04 * b07 + b05 * b06)"
  note b = b00_def b01_def b02_def b03_def b04_def b05_def b06_def b07_def b08_def b09_def b10_def b11_def
  have "D = det4 [a00, a01, a02, a03, a10, a11, a12, a13, a20, a21, a22, a23, a30, a31, a32, a33]"
    using b D_def by (rule invert_determinant)
  with det m have D: "D \<noteq> 0"
    by simp
  have k: "invDet = 1 / D"
    by (simp add: invDet_def D_def)
  define c where "c = next_ref s"
  define s1 where "s1 = s\<lparr>arrays := (arrays s)(c := [a00, a01, a02, a03, a10, a11, a12, a13, a20, a21, a22, a23, a30, a31, a32, a33]), next_ref := Suc (next_ref s)\<rparr>"
  have cl: "clone M s = (c, s1)"
    by (simp add: clone_arrays [OF m old] c_def s1_def)
  have c1: "arrays s1 c = [a00, a01, a02, a03, a10, a11, a12, a13, a20, a21, a22, a23, a30, a31, a32, a33]"
    by (simp add: s1_def)
  note inv = invert_arrays [OF c1 b invDet_def]
  define s2 where "s2 = snd (invert c s1)"
  have iv: "invert c s1 = (c, s2)"
    by (simp add: s2_def inv)
  from old have "M \<noteq> c"
    by (simp add: c_def)
  then have "arrays s2 M = arrays s1 M"
    by (simp add: s2_def inv)
  with m \<open>M \<noteq> c\<close> have m2: "arrays s2 M = [a00, a01, a02, a03, a10, a11, a12, a13, a20, a21, a22, a23, a30, a31, a32, a33]"
    by (simp add: s1_def)
  have c2: "arrays s2 c =
      [(a11 * b11 - a12 * b10 + a13 * b09) * invDet,
       (- a01 * b11 + a02 * b10 - a03 * b09) * invDet,
       (a31 * b05 - a32 * b04 + a33 * b03) * invDet,
       (- a21 * b05 + a22 * b04 - a23 * b03) * invDet,
       (- a10 * b11 + a12 * b08 - a13 * b07) * invDet,
       (a00 * b11 - a02 * b08 + a03 * b07) * invDet,
       (- a30 * b05 + a32 * b02 - a33 * b01) * invDet,
       (a20 * b05 - a22 * b02 + a23 * b01) * invDet,
       (a10 * b10 - a11 * b08 + a13 * b06) * invDet,
       (- a00 * b10 + a01 * b08 - a03 * b06) * invDet,
       (a30 * b04 - a31 * b02 + a33 * b00) * invDet,
       (- a20 * b04 + a21 * b02 - a23 * b00) * invDet,
       (- a10 * b09 + a11 * b07 - a12 * b06) * invDet,
       (a00 * b09 - a01 * b07 + a02 * b06) * invDet,
       (- a30 * b03 + a31 * b01 - a32 * b00) * invDet,
       (a20 * b03 - a21 * b01 + a22 * b00) * invDet]"
    by (simp add: s2_def inv)
  from out have "out \<noteq> c" "length (arrays s out) = 16"
    by (simp_all add: wf_def c_def)
  then have "arrays s2 out = arrays s out"
    by (simp add: s2_def inv) (simp add: s1_def)
  with \<open>length (arrays s out) = 16\<close> have o2: "length (arrays s2 out) = 16"
    by simp
  have "arrays (snd (mul env M c (Some out) s2)) out = identity16"
    unfolding mul_arrays [OF m2 c2 o2] dot4_scale adjugate_product [OF b D_def]
    using D by (simp add: identity16_def k)
  then show ?thesis
    by (simp add: cl iv)
qed

theorem invert_round_trip_witness:
  "wf example_state 1 \<and> wf example_state 2 \<and> det4 (arrays example_state 1) \<noteq> 0 \<and>
   (let (c, s1) = clone 1 example_state; (i, s2) = invert c s1
    in arrays (snd (mul no_globals 1 i (Some 2) s2)) 2) = identity16"
proof -
  have h: "wf example_state 1" "wf example_state 2" "det4 (arrays example_state 1) \<noteq> 0"
    by (simp_all add: wf_def example_state_def det4_def)
  from h invert_round_trip [OF h, of no_globals] show ?thesis
    by simp
qed

section \<open>Matrix times vector\<close>

lemma index3: "(c::nat) < 3 \<Longrightarrow> c = 0 \<or> c = 1 \<or> c = 2"
  by arith

lemma list3:
  assumes "length (xs :: 'a list) = 3"
  obtains x0 x1 x2 where "xs = [x0, x1, x2]"
proof -
  from assms have "\<exists>x0 x1 x2. xs = [x0, x1, x2]"
    by (simp add: numeral_eq_Suc length_Suc_conv) blast
  then show thesis using that by blast
qed

lemma wr3:
  assumes "length (arrays s r) = 3"
  shows "wr r 2 e2 (wr r 1 e1 (wr r 0 e0 s)) = s\<lparr>arrays := (arrays s)(r := [e0, e1, e2])\<rparr>"
proof -
  from assms obtain x0 x1 x2 where "arrays s r = [x0, x1, x2]"
    by (rule list3)
  then show ?thesis
    by (simp add: wr_def)
qed

lemma mulVec3_into:
  assumes "length (arrays s res) = 3"
  shows "mulVec3 mtx vec w (Some res) s =
     (res, s\<lparr>arrays := (arrays s)(res :=
        [rd s vec 0 * rd s mtx 0 + rd s vec 1 * rd s mtx 4 + rd s vec 2 * rd s mtx 8 + w * rd s mtx 12,
         rd s vec 0 * rd s mtx 1 + rd s vec 1 * rd s mtx 5 + rd s vec 2 * rd s mtx 9 + w * rd s mtx 13,
         rd s vec 0 * rd s mtx 2 + rd s vec 1 * rd s mtx 6 + rd s vec 2 * rd s mtx 10 + w * rd s mtx 14])\<rparr>)"
  by (simp add: mulVec3_def Let_def wr3 [OF assms] del: One_nat_def)

lemma mulVec3_fresh:
  assumes "mtx < next_ref s" and "vec < next_ref s"
  shows "mulVec3 mtx vec w None s =
     (next_ref s, s\<lparr>arrays := (arrays s)(next_ref s :=
        [rd s vec 0 * rd s mtx 0 + rd s vec 1 * rd s mtx 4 + rd s vec 2 * rd s mtx 8 + w * rd s mtx 12,
         rd s vec 0 * rd s mtx 1 + rd s vec 1 * rd s mtx 5 + rd s vec 2 * rd s mtx 9 + w * rd s mtx 13,
         rd s vec 0 * rd s mtx 2 + rd s vec 1 * rd s mtx 6 + rd s vec 2 * rd s mtx 10 + w * rd s mtx 14]),
        next_ref := Suc (next_ref s)\<rparr>)"
proof -
  define s1 where "s1 = s\<lparr>arrays := (arrays s)(next_ref s := [0, 0, 0]), next_ref := Suc (next_ref s)\<rparr>"
  have len: "length (arrays s1 (next_ref s)) = 3"
    by (simp add: s1_def)
  from assms have rd: "rd s1 mtx = rd s mtx" "rd s1 vec = rd s vec"
    by (simp_all add: s1_def rd_def fun_eq_iff)
  have "mulVec3 mtx vec w None s = mulVec3 mtx vec w (Some (next_ref s)) s1"
    by (simp add: mulVec3_def new_pc_Vector3_def alloc_def s1_def)
  then show ?thesis
    by (simp add: mulVec3_into [OF len] rd) (simp add: s1_def)
qed

text \<open>
  Claim C6, as amended. For every matrix \<open>mtx\<close>, 3-vector \<open>vec\<close> and scalar \<open>w\<close>,
  \<open>mulVec3(mtx, vec, w)\<close> returns the 3-vector obtained by treating \<open>vec\<close> as a column
  vector multiplied by the matrix: \<open>out = upper3x3(mtx) . vec + w . translation(mtx)\<close>,
  that is \<open>out[c] = vec[0] * mtx[c] + vec[1] * mtx[4 + c] + vec[2] * mtx[8 + c] +
  w * mtx[12 + c]\<close> for \<open>c\<close> in 0..2, with the homogeneous fourth coordinate dropped. The
  result is a new vector, or the vector passed as fourth argument.
\<close>

theorem mulVec3_column_vector:
  assumes "mtx < next_ref s" and "vec < next_ref s" and "c < 3"
    and "\<forall>r. res = Some r \<longrightarrow> length (arrays s r) = 3"
  shows "data_of (mulVec3 mtx vec w res s) ! c =
           arrays s vec ! 0 * arrays s mtx ! c + arrays s vec ! 1 * arrays s mtx ! (4 + c) +
           arrays s vec ! 2 * arrays s mtx ! (8 + c) + w * arrays s mtx ! (12 + c)"
proof (cases res)
  case None
  from index3 [OF assms(3)] show ?thesis
    by (elim disjE) (simp_all add: None mulVec3_fresh [OF assms(1,2)] data_of_def rd_def)
next
  case (Some r)
  with assms(4) have "length (arrays s r) = 3"
    by simp
  from index3 [OF assms(3)] show ?thesis
    by (elim disjE)
      (simp_all add: Some mulVec3_into [OF \<open>length (arrays s r) = 3\<close>] data_of_def rd_def)
qed

theorem mulVec3_column_vector_witness:
  "(1::nat) < next_ref example_state \<and> (8::nat) < next_ref example_state \<and> (0::nat) < 3 \<and>
   length (arrays example_state 6) = 3 \<and>
   data_of (mulVec3 1 8 1 None example_state) ! 0 = 12 \<and>
   data_of (mulVec3 1 8 1 (Some 6) example_state) ! 0 = 12"
proof -
  have h: "(1::nat) < next_ref example_state" "(8::nat) < next_ref example_state" "(0::nat) < 3"
    by (simp_all add: example_state_def)
  have n: "\<forall>r. (None :: ref option) = Some r \<longrightarrow> length (arrays example_state r) = 3"
    by simp
  have l: "length (arrays example_state 6) = 3"
    by (simp add: example_state_def)
  then have r: "\<forall>r. Some (6::ref) = Some r \<longrightarrow> length (arrays example_state r) = 3"
    by simp
  have "arrays example_state 8 ! 0 * arrays example_state 1 ! 0 +
        arrays example_state 8 ! 1 * arrays example_state 1 ! (4 + 0) +
        arrays example_state 8 ! 2 * arrays example_state 1 ! (8 + 0) +
        1 * arrays example_state 1 ! (12 + 0) = 12"
    by (simp add: example_state_def)
  with h l mulVec3_column_vector [OF h n, of 1] mulVec3_column_vector [OF h r, of 1]
  show ?thesis
    by simp
qed

text \<open>
  Claim C6 as stated reads \<open>vec\<close> as a row vector:
  \<open>out[c] = vec[0] * mtx[c * 4] + vec[1] * mtx[1 + c * 4] + vec[2] * mtx[2 + c * 4] +
  w * mtx[12 + c]\<close>. For the matrix whose only non-zero entry is \<open>mtx[4] = 1\<close>, the
  vector \<open>(0, 1, 0)\<close> and \<open>w = 0\<close>, the code returns \<open>out[0] = 1\<close> where that formula
  gives \<open>0\<close>.
\<close>

theorem mulVec3_row_vector_counterexample:
  "length (arrays example_state 3) = 16 \<and> length (arrays example_state 5) = 3 \<and>
   data_of (mulVec3 3 5 0 None example_state) ! 0 = 1 \<and>
   arrays example_state 5 ! 0 * arrays example_state 3 ! (0 * 4) +
   arrays example_state 5 ! 1 * arrays example_state 3 ! (1 + 0 * 4) +
   arrays example_state 5 ! 2 * arrays example_state 3 ! (2 + 0 * 4) +
   0 * arrays example_state 3 ! (12 + 0) = 0"
  by (simp add: mulVec3_def new_pc_Vector3_def alloc_def data_of_def rd_def wr_def
      example_state_def Let_def)

section \<open>Functions that do not reach their result\<close>

lemma arrays_wr_other_ref: "a \<noteq> b \<Longrightarrow> arrays (wr a i v s) b = arrays s b"
  by (simp add: wr_def)

lemma equals_never_boolean: "equals this rhs s = JUndefined"
  by (simp add: equals_def)

lemma transpose_m4_leaves_receiver:
  assumes "global_array env ''m'' \<noteq> Some this"
  shows "arrays (snd (transpose_m4 env this s)) this = arrays s this"
proof (cases "global_array env ''m''")
  case None
  then show ?thesis
    by (simp add: transpose_m4_def)
next
  case (Some m)
  with assms have "m \<noteq> this"
    by simp
  then show ?thesis
    by (simp add: transpose_m4_def Some Let_def arrays_wr_other_ref)
qed

lemma setFromEulerXYZ_ignores_arguments:
  "setFromEulerXYZ env this ex ey ez s = setFromEulerXYZ env this ex' ey' ez' s"
  by (simp add: setFromEulerXYZ_def)

lemma transpose_m4_unbound:
  assumes "global_array env ''m'' = None"
  shows "transpose_m4 env this s = (Inl (ReferenceError ''m''), s)"
  by (simp add: transpose_m4_def assms)

lemma invertTo3x3_unbound:
  assumes "global_array env ''r'' = None"
  shows "fst (invertTo3x3 env this s) = Inl (ReferenceError ''r'') \<and>
         arrays (snd (invertTo3x3 env this s)) = arrays s"
  by (simp add: invertTo3x3_def Let_def assms)

lemma invertTo3x3_singular:
  assumes "det3 (arrays s this) = 0"
  shows "invertTo3x3 env this s =
     (case global_array env ''r'' of None \<Rightarrow> Inl (ReferenceError ''r'') | Some r \<Rightarrow> Inr r,
      s\<lparr>console := console s @ [''pc.Matrix4#invertTo3x3: Matrix not invertible'']\<rparr>)"
proof -
  have "rd s this 0 * (rd s this 10 * rd s this 5 - rd s this 6 * rd s this 9) +
        rd s this 1 * (- rd s this 10 * rd s this 4 + rd s this 6 * rd s this 8) +
        rd s this 2 * (rd s this 9 * rd s this 4 - rd s this 5 * rd s this 8)
        = det3 (arrays s this)"
    unfolding det3_def rd_def by algebra
  with assms show ?thesis
    by (simp add: invertTo3x3_def Let_def del: One_nat_def split: option.split)
qed

lemma setFromEulerXYZ_unbound:
  assumes "global_number env ''x'' = None"
  shows "setFromEulerXYZ env this ex ey ez s = (Inl (ReferenceError ''x''), s)"
  by (simp add: setFromEulerXYZ_def assms)

text \<open>
  What \<open>transpose\<close> does where a global \<open>m\<close> exists: it transposes that array, whatever
  the receiver is, and a second call restores it.
\<close>

lemma transpose_m4_bound:
  assumes "global_array env ''m'' = Some m"
    and "arrays s m = [x0, x1, x2, x3, x4, x5, x6, x7, x8, x9, x10, x11, x12, x13, x14, x15]"
  shows "transpose_m4 env this s =
     (Inr this, s\<lparr>arrays := (arrays s)(m :=
        [x0, x4, x8, x12, x1, x5, x9, x13, x2, x6, x10, x14, x3, x7, x11, x15])\<rparr>)"
  using assms by (simp add: transpose_m4_def Let_def rd_def wr_def)

lemma transpose_m4_bound_twice:
  assumes m: "global_array env ''m'' = Some m"
    and len: "length (arrays s m) = 16"
  shows "snd (transpose_m4 env this (snd (transpose_m4 env this s))) = s"
proof -
  from len obtain x0 x1 x2 x3 x4 x5 x6 x7 x8 x9 x10 x11 x12 x13 x14 x15
    where x: "arrays s m = [x0, x1, x2, x3, x4, x5, x6, x7, x8, x9, x10, x11, x12, x13, x14, x15]"
    by (rule list16)
  define s1 where "s1 = snd (transpose_m4 env this s)"
  have s1: "s1 = s\<lparr>arrays := (arrays s)(m :=
        [x0, x4, x8, x12, x1, x5, x9, x13, x2, x6, x10, x14, x3, x7, x11, x15])\<rparr>"
    by (simp add: s1_def transpose_m4_bound [OF m x])
  then have "arrays s1 m = [x0, x4, x8, x12, x1, x5, x9, x13, x2, x6, x10, x14, x3, x7, x11, x15]"
    by simp
  from transpose_m4_bound [OF m this] have "snd (transpose_m4 env this s1) = s"
    by (simp add: s1 x [symmetric])
  then show ?thesis
    by (simp add: s1_def)
qed

text \<open>
  Claim C4: at two matrices with equal entries (here one matrix compared with itself),
  where the claim has \<open>equals\<close> return \<open>true\<close>, the code returns \<open>undefined\<close>.
\<close>

theorem equals_returns_undefined:
  "equals_unreachable (arrays example_state 0) (arrays example_state 0) \<and>
   equals 0 0 example_state = JUndefined \<and>
   equals 0 0 example_state \<noteq> JBool True"
  by (simp add: equals_def equals_unreachable_def)

text \<open>
  Claim C5: where no global \<open>m\<close> exists, \<open>transpose()\<close> on the matrix holding 1..16
  raises a ReferenceError and leaves the store as it was, where the claim has the
  off-diagonal pairs swapped.
\<close>

theorem transpose_raises_ReferenceError:
  "transpose_m4 no_globals 0 example_state = (Inl (ReferenceError ''m''), example_state) \<and>
   arrays example_state 0 = [1, 2, 3, 4, 5, 6, 7, 8, 9, 10, 11, 12, 13, 14, 15, 16]"
  by (simp add: transpose_m4_def no_globals_def example_state_def)

text \<open>
  Claim C7: where no global \<open>r\<close> exists, \<open>invertTo3x3()\<close> on the zero matrix logs the
  warning and leaves the storage as it was, but then raises a ReferenceError on
  \<open>return r\<close>, where the claim has it return.
\<close>

theorem invertTo3x3_singular_raises_ReferenceError:
  "invertTo3x3 no_globals 2 example_state =
     (Inl (ReferenceError ''r''),
      example_state\<lparr>console := [''pc.Matrix4#invertTo3x3: Matrix not invertible'']\<rparr>)"
  by (simp add: invertTo3x3_def no_globals_def rd_def example_state_def)

text \<open>
  Claim C9: where no global \<open>x\<close> exists, \<open>setFromEulerXYZ(1/2, 1/4, 1/8)\<close> raises a
  ReferenceError before it stores anything, so that there is no matrix for
  \<open>toEulerXYZ()\<close> to convert back.
\<close>

theorem setFromEulerXYZ_raises_ReferenceError:
  "setFromEulerXYZ no_globals 2 (1 / 2) (1 / 4) (1 / 8) example_state =
     (Inl (ReferenceError ''x''), example_state)"
  by (simp add: setFromEulerXYZ_def no_globals_def)

section \<open>lookAt\<close>

lemma lookAt_undefined:
  "lookAt ReturnsUndefined this position target up s = (Inl (TypeError ''z is undefined''), s)"
  by (simp add: lookAt_def)

text \<open>
  The other host: the plain call returns vectors. The basis vectors go to the entries
  0 to 2, 4 to 6 and 8 to 10, which are the columns of the rotation block, and the
  position to the entries 12 to 14.
\<close>

lemma lookAt_state:
  assumes len: "length (arrays s this) = 16" and pos: "length (arrays s position) = 3"
  shows "lookAt (ReturnsVector index) this position target up s =
     (Inr this, s\<lparr>arrays := (arrays s)(this :=
       (let z = v3_normalize (v3_subtract (arrays s position) (arrays s target));
            x = v3_normalize (v3_cross (v3_normalize (arrays s up)) z);
            y = v3_cross z x
        in [index x 0, index x 1, index x 2, 0, index y 0, index y 1, index y 2, 0,
            index z 0, index z 1, index z 2, 0,
            index (arrays s position) 0, index (arrays s position) 1,
            index (arrays s position) 2, 1]))\<rparr>)"
proof -
  from len pos have "this \<noteq> position"
    by auto
  then show ?thesis
    by (simp add: lookAt_def Let_def arrays_wr_other_ref wr16 [OF len] del: One_nat_def)
qed

lemma v3_length_zero:
  assumes "v3_length u = 0"
  shows "u ! 0 = 0 \<and> u ! 1 = 0 \<and> u ! 2 = 0"
proof -
  have nn: "0 \<le> u ! 0 * u ! 0" "0 \<le> u ! 1 * u ! 1" "0 \<le> u ! 2 * u ! 2"
    by simp_all
  from assms have "u ! 0 * u ! 0 + u ! 1 * u ! 1 + u ! 2 * u ! 2 = 0"
    by (simp add: v3_length_def)
  with nn have "u ! 0 * u ! 0 = 0" "u ! 1 * u ! 1 = 0" "u ! 2 * u ! 2 = 0"
    by linarith+
  then show ?thesis
    by simp
qed

lemma v3_length_scaled:
  assumes "0 < n"
  shows "v3_length [d0 / n, d1 / n, d2 / n] = v3_length [d0, d1, d2] / n"
proof -
  have "d0 / n * (d0 / n) + d1 / n * (d1 / n) + d2 / n * (d2 / n) =
        (d0 * d0 + d1 * d1 + d2 * d2) / (n * n)"
    by (simp add: add_divide_distrib)
  moreover from assms have "sqrt (n * n) = n"
    by simp
  ultimately show ?thesis
    by (simp add: v3_length_def real_sqrt_divide del: One_nat_def)
qed

lemma v3_normalize_scaled:
  assumes "0 < n"
  shows "v3_normalize [d0 / n, d1 / n, d2 / n] = v3_normalize [d0, d1, d2]"
  using assms by (simp add: v3_normalize_def v3_length_scaled)

lemma v3_cross_normalize:
  "v3_cross (v3_normalize u) z =
     [(u ! 1 * z ! 2 - u ! 2 * z ! 1) / v3_length u,
      (u ! 2 * z ! 0 - u ! 0 * z ! 2) / v3_length u,
      (u ! 0 * z ! 1 - u ! 1 * z ! 0) / v3_length u]"
  by (simp add: v3_cross_def v3_normalize_def diff_divide_distrib)

lemma v3_normalize_cross_normalize:
  assumes "v3_length u \<noteq> 0"
  shows "v3_normalize (v3_cross (v3_normalize u) z) = v3_normalize (v3_cross u z)"
proof -
  have "0 \<le> v3_length u"
    by (simp add: v3_length_def)
  with assms have "0 < v3_length u"
    by simp
  then show ?thesis
    by (simp add: v3_cross_normalize v3_normalize_scaled) (simp add: v3_cross_def)
qed

lemma lookAt_vectors_columns:
  assumes "length (arrays s this) = 16" and "length (arrays s position) = 3"
    and "v3_cross (arrays s up) (v3_subtract (arrays s position) (arrays s target)) \<noteq> [0, 0, 0]"
  shows "lookAt (ReturnsVector (!)) this position target up s =
     (Inr this, s\<lparr>arrays := (arrays s)(this :=
       (let z = v3_normalize (v3_subtract (arrays s position) (arrays s target));
            x = v3_normalize (v3_cross (arrays s up) z);
            y = v3_cross z x
        in [x ! 0, x ! 1, x ! 2, 0, y ! 0, y ! 1, y ! 2, 0, z ! 0, z ! 1, z ! 2, 0,
            arrays s position ! 0, arrays s position ! 1, arrays s position ! 2, 1]))\<rparr>)"
proof -
  have "v3_length (arrays s up) \<noteq> 0"
  proof
    assume "v3_length (arrays s up) = 0"
    then have "arrays s up ! 0 = 0 \<and> arrays s up ! 1 = 0 \<and> arrays s up ! 2 = 0"
      by (rule v3_length_zero)
    then have "v3_cross (arrays s up) (v3_subtract (arrays s position) (arrays s target)) = [0, 0, 0]"
      by (simp add: v3_cross_def)
    with assms(3) show False
      by simp
  qed
  then show ?thesis
    by (simp add: lookAt_state [OF assms(1,2)] v3_normalize_cross_normalize)
qed

text \<open>
  In that host, for the eye at \<open>(1, 0, 0)\<close> looking at the origin with up \<open>(0, 1, 0)\<close>:
  the stored matrix, and the image of the eye point under it, which is not the origin
  that the comment above the function names.
\<close>

lemma lookAt_vectors_example:
  "lookAt (ReturnsVector (!)) 2 7 6 5 example_state =
     (Inr 2, example_state\<lparr>arrays := (arrays example_state)
        (2 := [0, 0, - 1, 0, 0, 1, 0, 0, 1, 0, 0, 0, 1, 0, 0, 1])\<rparr>)"
proof -
  have len: "length (arrays example_state 2) = 16" "length (arrays example_state 7) = 3"
    by (simp_all add: example_state_def)
  show ?thesis
    by (simp add: lookAt_state [OF len])
      (simp add: example_state_def v3_normalize_def v3_subtract_def v3_cross_def v3_length_def)
qed

lemma lookAt_vectors_example_eye:
  "data_of (mulVec3 2 7 1 None (snd (lookAt (ReturnsVector (!)) 2 7 6 5 example_state)))
     = [1, 0, - 1]"
  by (simp add: lookAt_vectors_example)
    (simp add: mulVec3_def new_pc_Vector3_def alloc_def data_of_def rd_def wr_def
      example_state_def Let_def)

text \<open>
  Claim C8: where \<open>pc.Vector3\<close> is a constructor of the shape this file uses, so that the
  plain calls \<open>pc.Vector3()\<close> of the closure leave the scratch vectors \<open>undefined\<close>,
  \<open>lookAt\<close> for the eye at \<open>(1, 0, 0)\<close>, the target at the origin and up \<open>(0, 1, 0)\<close>
  raises a TypeError at its first statement and stores nothing, where the claim has it
  compute the basis and write it with the position into the matrix.
\<close>

theorem lookAt_raises_TypeError:
  "lookAt ReturnsUndefined 2 7 6 5 example_state =
     (Inl (TypeError ''z is undefined''), example_state) \<and>
   arrays example_state 7 = [1, 0, 0] \<and> arrays example_state 6 = [0, 0, 0] \<and>
   arrays example_state 5 = [0, 1, 0]"
  by (simp add: lookAt_def example_state_def)

end
